theory Spec2Isabelle
  imports Complex_Main
begin

section \<open>Data model of the ownership ledger\<close>

text \<open>
  The source is one Python script, \<^verbatim>\<open>dummy_vs_no_brown_players.py\<close>. The road
  information passed to \<^verbatim>\<open>buy\<close> is a dictionary with the keys \<^verbatim>\<open>color\<close>,
  \<^verbatim>\<open>price\<close>, \<^verbatim>\<open>mortgage_value\<close> and \<^verbatim>\<open>belongs_to\<close>; it is a mutable object, and
  the player's \<^verbatim>\<open>_dict_roads\<close> table refers to such objects as well. Road objects
  therefore live in a store indexed by addresses, so that a write through
  \<^verbatim>\<open>dict_road_info\<close> is seen through \<^verbatim>\<open>_dict_roads\<close> when both name the same object.
\<close>

type_synonym addr = nat

record road_info =
  color :: string
  price :: int
  mortgage_value :: int
  belongs_to :: "string option"

text \<open>
  The attributes of a \<^verbatim>\<open>Player\<close> that \<^verbatim>\<open>buy\<close> reads or writes (the leading
  underscore of the Python names is dropped). \<^verbatim>\<open>_dict_roads\<close> maps a road name to the
  address of its road object; \<^verbatim>\<open>buy\<close> never changes the table itself.
\<close>

record player =
  name :: string
  cash :: int
  list_owned_roads :: "string list"
  dict_owned_houses_hotels :: "string \<rightharpoonup> nat \<times> nat"
  properties_total_mortgageable_amount :: int
  dict_owned_colors :: "string \<rightharpoonup> bool"
  dict_roads :: "string \<rightharpoonup> addr"

text \<open>The script builds exactly two players, bound to \<^verbatim>\<open>player1\<close> and \<^verbatim>\<open>player2\<close>.\<close>

datatype pid = P1 | P2

text \<open>
  One game: the cash of the bank dictionary that both players share
  (\<^verbatim>\<open>self._bank['cash']\<close>), the two player objects and the store of road objects.
\<close>

record world =
  bank_cash :: int
  players :: "pid \<Rightarrow> player"
  road_objs :: "addr \<Rightarrow> road_info"

text \<open>
  Python exceptions: \<^verbatim>\<open>Exception(msg)\<close> raised by \<^verbatim>\<open>buy\<close>, \<^verbatim>\<open>KeyError\<close> of a
  dictionary lookup, \<^verbatim>\<open>IndexError\<close> of a list index. An exception does not undo the
  writes made before it, so a call returns its outcome together with the state it left.
\<close>

datatype exn = Exception string | KeyError string | IndexError

datatype outcome = Returned | Raised exn

definition set_self :: "pid \<Rightarrow> (player \<Rightarrow> player) \<Rightarrow> world \<Rightarrow> world" where
  "set_self self f w = w\<lparr>players := (players w)(self := f (players w self))\<rparr>"

text \<open>\<^verbatim>\<open>self._dict_owned_colors[color] = True\<close>\<close>

definition mark :: "pid \<Rightarrow> string \<Rightarrow> world \<Rightarrow> world" where
  "mark self c w =
     set_self self (\<lambda>p. p\<lparr>dict_owned_colors := (dict_owned_colors p)(c \<mapsto> True)\<rparr>) w"

text \<open>
  The counting loop of \<^verbatim>\<open>buy\<close>:
  \<^verbatim>\<open>for road in self._list_owned_roads:
      if color == self._dict_roads[road]['color']: count_roads_of_color += 1\<close>
  A road name missing from \<^verbatim>\<open>_dict_roads\<close> raises \<^verbatim>\<open>KeyError\<close>.
\<close>

fun count_roads_of_color ::
  "(string \<rightharpoonup> addr) \<Rightarrow> (addr \<Rightarrow> road_info) \<Rightarrow> string \<Rightarrow> string list \<Rightarrow> nat \<Rightarrow> exn + nat" where
  "count_roads_of_color dr objs c [] n = Inr n"
| "count_roads_of_color dr objs c (road # roads) n =
     (case dr road of
        None \<Rightarrow> Inl (KeyError road)
      | Some a \<Rightarrow>
          count_roads_of_color dr objs c roads (if c = color (objs a) then n + 1 else n))"

section \<open>The buy operation, as the source writes it three times\<close>

text \<open>\<^verbatim>\<open>Player_no_brown.buy\<close> (the subclass of Appendix A, lines 242 to 288).\<close>

definition Player_no_brown_buy :: "pid \<Rightarrow> addr \<Rightarrow> string \<Rightarrow> world \<Rightarrow> outcome \<times> world" where
  "Player_no_brown_buy self dict_road_info road_name w =
    (if color (road_objs w dict_road_info) = ''brown'' then (Returned, w)
     else
       let road_price = price (road_objs w dict_road_info) in
       if cash (players w self) < road_price
       then (Raised (Exception (''Player '' @ name (players w self) @ '' does not have enough money'')), w)
       else
         let w1 = w\<lparr>bank_cash := bank_cash w + road_price\<rparr>;
             w2 = set_self self (\<lambda>p. p\<lparr>cash := cash p - road_price\<rparr>) w1;
             w3 = w2\<lparr>road_objs := (road_objs w2)
                    (dict_road_info :=
                       (road_objs w2 dict_road_info)\<lparr>belongs_to := Some (name (players w2 self))\<rparr>)\<rparr>;
             w4 = set_self self (\<lambda>p. p\<lparr>list_owned_roads := list_owned_roads p @ [road_name]\<rparr>) w3;
             w5 = set_self self
                    (\<lambda>p. p\<lparr>dict_owned_houses_hotels := (dict_owned_houses_hotels p)(road_name \<mapsto> (0, 0))\<rparr>) w4;
             w6 = set_self self
                    (\<lambda>p. p\<lparr>properties_total_mortgageable_amount :=
                              properties_total_mortgageable_amount p
                              + mortgage_value (road_objs w5 dict_road_info)\<rparr>) w5;
             c = color (road_objs w6 dict_road_info)
         in case count_roads_of_color (dict_roads (players w6 self)) (road_objs w6) c
                   (list_owned_roads (players w6 self)) 0 of
              Inl e \<Rightarrow> (Raised e, w6)
            | Inr count \<Rightarrow>
                if c = ''brown'' \<and> count = 2 then (Returned, mark self c w6)
                else if c = ''light_blue'' \<and> count = 3 then (Returned, mark self c w6)
                else if c = ''purple'' \<and> count = 3 then (Returned, mark self c w6)
                else if c = ''orange'' \<and> count = 3 then (Returned, mark self c w6)
                else if c = ''red'' \<and> count = 3 then (Returned, mark self c w6)
                else if c = ''yellow'' \<and> count = 3 then (Returned, mark self c w6)
                else if c = ''green'' \<and> count = 3 then (Returned, mark self c w6)
                else if c = ''blue'' \<and> count = 2 then (Returned, mark self c w6)
                else (Returned, w6))"

text \<open>
  \<^verbatim>\<open>buy_new\<close> (lines 300 to 345), installed on one instance with
  \<^verbatim>\<open>types.MethodType\<close>. It is transcribed on its own, line by line.
\<close>

definition buy_new :: "pid \<Rightarrow> addr \<Rightarrow> string \<Rightarrow> world \<Rightarrow> outcome \<times> world" where
  "buy_new self dict_road_info road_name w =
    (if color (road_objs w dict_road_info) = ''brown'' then (Returned, w)
     else
       let road_price = price (road_objs w dict_road_info) in
       if cash (players w self) < road_price
       then (Raised (Exception (''Player '' @ name (players w self) @ '' does not have enough money'')), w)
       else
         let w1 = w\<lparr>bank_cash := bank_cash w + road_price\<rparr>;
             w2 = set_self self (\<lambda>p. p\<lparr>cash := cash p - road_price\<rparr>) w1;
             w3 = w2\<lparr>road_objs := (road_objs w2)
                    (dict_road_info :=
                       (road_objs w2 dict_road_info)\<lparr>belongs_to := Some (name (players w2 self))\<rparr>)\<rparr>;
             w4 = set_self self (\<lambda>p. p\<lparr>list_owned_roads := list_owned_roads p @ [road_name]\<rparr>) w3;
             w5 = set_self self
                    (\<lambda>p. p\<lparr>dict_owned_houses_hotels := (dict_owned_houses_hotels p)(road_name \<mapsto> (0, 0))\<rparr>) w4;
             w6 = set_self self
                    (\<lambda>p. p\<lparr>properties_total_mortgageable_amount :=
                              properties_total_mortgageable_amount p
                              + mortgage_value (road_objs w5 dict_road_info)\<rparr>) w5;
             c = color (road_objs w6 dict_road_info)
         in case count_roads_of_color (dict_roads (players w6 self)) (road_objs w6) c
                   (list_owned_roads (players w6 self)) 0 of
              Inl e \<Rightarrow> (Raised e, w6)
            | Inr count \<Rightarrow>
                if c = ''brown'' \<and> count = 2 then (Returned, mark self c w6)
                else if c = ''light_blue'' \<and> count = 3 then (Returned, mark self c w6)
                else if c = ''purple'' \<and> count = 3 then (Returned, mark self c w6)
                else if c = ''orange'' \<and> count = 3 then (Returned, mark self c w6)
                else if c = ''red'' \<and> count = 3 then (Returned, mark self c w6)
                else if c = ''yellow'' \<and> count = 3 then (Returned, mark self c w6)
                else if c = ''green'' \<and> count = 3 then (Returned, mark self c w6)
                else if c = ''blue'' \<and> count = 2 then (Returned, mark self c w6)
                else (Returned, w6))"

text \<open>
  The decorator \<^verbatim>\<open>modify_buy\<close> (lines 135 to 141): it takes the method it wraps as
  its argument, and so does the model.
\<close>

definition modify_buy ::
  "(pid \<Rightarrow> addr \<Rightarrow> string \<Rightarrow> world \<Rightarrow> outcome \<times> world) \<Rightarrow> pid \<Rightarrow> addr \<Rightarrow> string \<Rightarrow> world \<Rightarrow> outcome \<times> world" where
  "modify_buy buy self dict_road_info road_name w =
    (if color (road_objs w dict_road_info) = ''brown'' then (Returned, w)
     else buy self dict_road_info road_name w)"

subsection \<open>Notions used to state the properties of buy\<close>

text \<open>
  The constants of the chain of \<^verbatim>\<open>elif\<close> tests (lines 273 to 288), read as a table
  from colour to required count. A colour outside the chain has no entry.
\<close>

definition threshold :: "string \<Rightarrow> nat option" where
  "threshold c =
    (if c = ''brown'' then Some 2
     else if c = ''light_blue'' then Some 3
     else if c = ''purple'' then Some 3
     else if c = ''orange'' then Some 3
     else if c = ''red'' then Some 3
     else if c = ''yellow'' then Some 3
     else if c = ''green'' then Some 3
     else if c = ''blue'' then Some 2
     else None)"

text \<open>
  The number of roads in a list of road names whose entry in \<^verbatim>\<open>_dict_roads\<close> has the
  given colour (every name being a key of the table).
\<close>

definition roads_of_color :: "(string \<rightharpoonup> addr) \<Rightarrow> (addr \<Rightarrow> road_info) \<Rightarrow> string \<Rightarrow> string list \<Rightarrow> nat" where
  "roads_of_color dr objs c roads =
     length (filter (\<lambda>road. case dr road of None \<Rightarrow> False | Some a \<Rightarrow> c = color (objs a)) roads)"

text \<open>The state after the six writes of a purchase (lines 259 to 266), in one expression.\<close>

definition paid :: "pid \<Rightarrow> addr \<Rightarrow> string \<Rightarrow> world \<Rightarrow> world" where
  "paid self a road_name w =
     \<lparr>bank_cash = bank_cash w + price (road_objs w a),
      players = (players w)
        (self := (players w self)
           \<lparr>cash := cash (players w self) - price (road_objs w a),
            list_owned_roads := list_owned_roads (players w self) @ [road_name],
            dict_owned_houses_hotels := (dict_owned_houses_hotels (players w self))(road_name \<mapsto> (0, 0)),
            properties_total_mortgageable_amount :=
              properties_total_mortgageable_amount (players w self) + mortgage_value (road_objs w a)\<rparr>),
      road_objs = (road_objs w)(a := (road_objs w a)\<lparr>belongs_to := Some (name (players w self))\<rparr>)\<rparr>"

definition total_cash :: "world \<Rightarrow> int" where
  "total_cash w = bank_cash w + cash (players w P1) + cash (players w P2)"

text \<open>
  Modelled from the spec: \<^verbatim>\<open>Player.buy\<close> of \<^verbatim>\<open>monosim.player\<close>, the method that
  \<^verbatim>\<open>modify_buy\<close> wraps in the main experiment, is not among the source files. It follows
  the acquire contract and the monopoly recomputation of section 4.1 of the spec: the
  call fails when the player's cash is below the price (the failure signal is taken to
  be the exception that the source's own copies raise); otherwise the player's cash is
  debited, the bank credited, the owner set, the road appended to the owned list, its
  improvement pair set to (0, 0) and its mortgage value added to the mortgageable
  total; then the player's owned roads of the new road's colour are counted, and the
  group is marked when the count meets or exceeds the threshold of the static table.
\<close>

definition Player_buy :: "pid \<Rightarrow> addr \<Rightarrow> string \<Rightarrow> world \<Rightarrow> outcome \<times> world" where
  "Player_buy self dict_road_info road_name w =
    (if cash (players w self) < price (road_objs w dict_road_info)
     then (Raised (Exception (''Player '' @ name (players w self) @ '' does not have enough money'')), w)
     else
       let w' = paid self dict_road_info road_name w;
           c = color (road_objs w' dict_road_info);
           count = roads_of_color (dict_roads (players w' self)) (road_objs w') c
                     (list_owned_roads (players w' self))
       in case threshold c of
            None \<Rightarrow> (Returned, w')
          | Some required \<Rightarrow>
              if required \<le> count then (Returned, mark self c w') else (Returned, w'))"

text \<open>
  Any sequence of calls to the two variant methods of the source, by either player, on
  any road object and road name. A call that raises leaves the state it reached, and
  the sequence goes on from there, so every state a game can reach through these
  methods is covered.
\<close>

datatype buy_impl = Subclass | MethodType

fun buy_of :: "buy_impl \<Rightarrow> pid \<Rightarrow> addr \<Rightarrow> string \<Rightarrow> world \<Rightarrow> outcome \<times> world" where
  "buy_of Subclass = Player_no_brown_buy"
| "buy_of MethodType = buy_new"

fun run_calls :: "(buy_impl \<times> pid \<times> addr \<times> string) list \<Rightarrow> world \<Rightarrow> world" where
  "run_calls [] w = w"
| "run_calls ((impl, self, a, road_name) # calls) w =
     run_calls calls (snd (buy_of impl self a road_name w))"

text \<open>
  The calls of a game hand \<^verbatim>\<open>buy\<close> the road information that the road table holds
  for the road name: \<open>table_calls w calls\<close> says so of every call of a sequence. The buy
  methods never change a road table, so the state the sequence starts in decides it.
\<close>

fun table_calls :: "world \<Rightarrow> (buy_impl \<times> pid \<times> addr \<times> string) list \<Rightarrow> bool" where
  "table_calls w [] = True"
| "table_calls w ((impl, self, a, road_name) # calls) =
     (dict_roads (players w self) road_name = Some a \<and> table_calls w calls)"

text \<open>
  The bookkeeping of a player is consistent: every owned road name is a key of the road
  table, and a colour group is marked exactly when the number of owned roads of that
  colour meets or exceeds the colour's threshold.
\<close>

definition marks_match_counts :: "world \<Rightarrow> pid \<Rightarrow> bool" where
  "marks_match_counts w i \<longleftrightarrow>
     set (list_owned_roads (players w i)) \<subseteq> dom (dict_roads (players w i))
     \<and> (\<forall>c. dict_owned_colors (players w i) c = Some True \<longleftrightarrow>
            (\<exists>required. threshold c = Some required
               \<and> required \<le> roads_of_color (dict_roads (players w i)) (road_objs w) c
                               (list_owned_roads (players w i))))"

section \<open>The trial loop\<close>

text \<open>
  \<^verbatim>\<open>Player.play\<close> and \<^verbatim>\<open>Player.has_lost\<close> belong to \<^verbatim>\<open>monosim.player\<close> and are
  parameters of the loop: \<open>play p\<close> is the effect of \<^verbatim>\<open>p.play()\<close> on the state of the
  game, \<open>has_lost p\<close> the value of \<^verbatim>\<open>p.has_lost()\<close> in a state. The loop is
  \<^verbatim>\<open>while not player1.has_lost() and not player2.has_lost() and idx_count < 1000:
      for player in list_players: player.play()
      idx_count += 1\<close>
  and it returns the state and the counter it stops with.
\<close>

function trial_loop ::
  "(pid \<Rightarrow> 's \<Rightarrow> 's) \<Rightarrow> (pid \<Rightarrow> 's \<Rightarrow> bool) \<Rightarrow> pid list \<Rightarrow> 's \<Rightarrow> nat \<Rightarrow> 's \<times> nat" where
  "trial_loop play has_lost list_players s idx_count =
     (if \<not> has_lost P1 s \<and> \<not> has_lost P2 s \<and> idx_count < 1000
      then trial_loop play has_lost list_players (fold play list_players s) (idx_count + 1)
      else (s, idx_count))"
  by pat_completeness auto
termination
  by (relation "measure (\<lambda>(play, has_lost, list_players, s, idx_count). 1000 - idx_count)") auto

declare trial_loop.simps [simp del]

text \<open>The players are built with the names \<^verbatim>\<open>'player1'\<close> and \<^verbatim>\<open>'player2'\<close>.\<close>

fun pid_name :: "pid \<Rightarrow> string" where
  "pid_name P1 = ''player1''"
| "pid_name P2 = ''player2''"

type_synonym result_row = "nat \<times> string \<times> string"

text \<open>
  The tuple \<^verbatim>\<open>(seed, label, list_players[0]._name)\<close>; indexing an empty list raises
  \<^verbatim>\<open>IndexError\<close>.
\<close>

definition result_row :: "nat \<Rightarrow> string \<Rightarrow> pid list \<Rightarrow> exn + result_row" where
  "result_row seed label list_players =
     (case list_players of
        [] \<Rightarrow> Inl IndexError
      | first # _ \<Rightarrow> Inr (seed, label, pid_name first))"


text \<open>
  To speak about the calls of \<^verbatim>\<open>play()\<close> a trial makes, the loop is run on a state
  extended with a log: each call appends the player and the state it started in.
\<close>

definition logged_play :: "(pid \<Rightarrow> 's \<Rightarrow> 's) \<Rightarrow> pid \<Rightarrow> 's \<times> (pid \<times> 's) list \<Rightarrow> 's \<times> (pid \<times> 's) list" where
  "logged_play play p sl = (play p (fst sl), snd sl @ [(p, fst sl)])"

definition logged_has_lost :: "(pid \<Rightarrow> 's \<Rightarrow> bool) \<Rightarrow> pid \<Rightarrow> 's \<times> (pid \<times> 's) list \<Rightarrow> bool" where
  "logged_has_lost has_lost p sl = has_lost p (fst sl)"

text \<open>The calls of one round, \<^verbatim>\<open>for player in list_players: player.play()\<close>, from a state on.\<close>

fun round_calls :: "(pid \<Rightarrow> 's \<Rightarrow> 's) \<Rightarrow> pid list \<Rightarrow> 's \<Rightarrow> (pid \<times> 's) list" where
  "round_calls play [] s = []"
| "round_calls play (p # ps) s = (p, s) # round_calls play ps (play p s)"

definition play_calls ::
  "(pid \<Rightarrow> 's \<Rightarrow> 's) \<Rightarrow> (pid \<Rightarrow> 's \<Rightarrow> bool) \<Rightarrow> pid list \<Rightarrow> 's \<Rightarrow> (pid \<times> 's) list" where
  "play_calls play has_lost list_players s0 =
     snd (fst (trial_loop (logged_play play) (logged_has_lost has_lost) list_players (s0, []) 0))"

text \<open>
  A small game for examples: the state is the cash of the two players, a turn costs its
  player 100, and a player has lost when the cash is negative.
\<close>

fun ex_play :: "pid \<Rightarrow> int \<times> int \<Rightarrow> int \<times> int" where
  "ex_play P1 (c1, c2) = (c1 - 100, c2)"
| "ex_play P2 (c1, c2) = (c1, c2 - 100)"

fun ex_has_lost :: "pid \<Rightarrow> int \<times> int \<Rightarrow> bool" where
  "ex_has_lost P1 (c1, c2) = (c1 < 0)"
| "ex_has_lost P2 (c1, c2) = (c2 < 0)"

section \<open>The outcome analysis\<close>

definition lost_player :: "result_row \<Rightarrow> string" where
  "lost_player r = fst (snd r)"

definition starting_player :: "result_row \<Rightarrow> string" where
  "starting_player r = snd (snd r)"

text \<open>\<^verbatim>\<open>df_res[df_res.lost_player == 'player1_lost'].shape[0]\<close>, and the same for player 2.\<close>

definition n_lost_p1 :: "result_row list \<Rightarrow> nat" where
  "n_lost_p1 list_results = length (filter (\<lambda>r. lost_player r = ''player1_lost'') list_results)"

definition n_lost_p2 :: "result_row list \<Rightarrow> nat" where
  "n_lost_p2 list_results = length (filter (\<lambda>r. lost_player r = ''player2_lost'') list_results)"

text \<open>
  The call \<^verbatim>\<open>binomtest(k=n_lost_p1, n=n_lost_p1+n_lost_p2, p=1/2, alternative='two-sided')\<close>:
  the arguments the script hands to scipy. The test itself is scipy's.
\<close>

record binomtest_args =
  arg_k :: nat
  arg_n :: nat
  arg_p :: rat
  arg_alternative :: string

definition binomtest_call :: "result_row list \<Rightarrow> binomtest_args" where
  "binomtest_call list_results =
     \<lparr>arg_k = n_lost_p1 list_results,
      arg_n = n_lost_p1 list_results + n_lost_p2 list_results,
      arg_p = 1 / 2,
      arg_alternative = ''two-sided''\<rparr>"

section \<open>Example game state\<close>

definition ex_objs :: "addr \<Rightarrow> road_info" where
  "ex_objs a =
    (if a = 0 then \<lparr>color = ''brown'', price = 60, mortgage_value = 30, belongs_to = None\<rparr>
     else if a = 1 then \<lparr>color = ''brown'', price = 60, mortgage_value = 30, belongs_to = None\<rparr>
     else if a = 2 then \<lparr>color = ''light_blue'', price = 100, mortgage_value = 50, belongs_to = None\<rparr>
     else if a = 3 then \<lparr>color = ''light_blue'', price = 100, mortgage_value = 50, belongs_to = None\<rparr>
     else if a = 4 then \<lparr>color = ''light_blue'', price = 120, mortgage_value = 60, belongs_to = None\<rparr>
     else if a = 5 then \<lparr>color = ''blue'', price = 350, mortgage_value = 175, belongs_to = None\<rparr>
     else if a = 6 then \<lparr>color = ''blue'', price = 400, mortgage_value = 200, belongs_to = None\<rparr>
     else \<lparr>color = ''purple'', price = 60, mortgage_value = 70, belongs_to = None\<rparr>)"

definition ex_dict_roads :: "string \<rightharpoonup> addr" where
  "ex_dict_roads =
     map_of [(''mediterranean_avenue'', 0), (''baltic_avenue'', 1), (''oriental_avenue'', 2),
             (''vermont_avenue'', 3), (''connecticut_avenue'', 4), (''park_place'', 5),
             (''boardwalk'', 6), (''st_charles_place'', 7)]"

definition ex_player :: "string \<Rightarrow> int \<Rightarrow> string list \<Rightarrow> player" where
  "ex_player nm c owned =
     \<lparr>name = nm, cash = c, list_owned_roads = owned,
      dict_owned_houses_hotels = map_of (map (\<lambda>r. (r, (0, 0))) owned),
      properties_total_mortgageable_amount = 0,
      dict_owned_colors = Map.empty,
      dict_roads = ex_dict_roads\<rparr>"

definition ex_world :: "int \<Rightarrow> string list \<Rightarrow> world" where
  "ex_world c owned =
     \<lparr>bank_cash = 1000,
      players = (\<lambda>i. case i of P1 \<Rightarrow> ex_player ''player1'' c owned
                              | P2 \<Rightarrow> ex_player ''player2'' 1500 []),
      road_objs = ex_objs\<rparr>"

section \<open>Facts about the buy operation\<close>

lemma buy_new_eq: "buy_new = Player_no_brown_buy"
  by (intro ext) (simp only: buy_new_def Player_no_brown_buy_def)

lemma chain_threshold:
  "(if c = ''brown'' \<and> k = 2 then (Returned, mark self c w6)
    else if c = ''light_blue'' \<and> k = 3 then (Returned, mark self c w6)
    else if c = ''purple'' \<and> k = 3 then (Returned, mark self c w6)
    else if c = ''orange'' \<and> k = 3 then (Returned, mark self c w6)
    else if c = ''red'' \<and> k = 3 then (Returned, mark self c w6)
    else if c = ''yellow'' \<and> k = 3 then (Returned, mark self c w6)
    else if c = ''green'' \<and> k = 3 then (Returned, mark self c w6)
    else if c = ''blue'' \<and> k = 2 then (Returned, mark self c w6)
    else (Returned, w6))
   = (Returned, if threshold c = Some k then mark self c w6 else w6)"
  by (simp add: threshold_def)

lemma six_writes_let:
  "(let w1 = w\<lparr>bank_cash := bank_cash w + price (road_objs w a)\<rparr>;
        w2 = set_self self (\<lambda>p. p\<lparr>cash := cash p - price (road_objs w a)\<rparr>) w1;
        w3 = w2\<lparr>road_objs := (road_objs w2)
               (a := (road_objs w2 a)\<lparr>belongs_to := Some (name (players w2 self))\<rparr>)\<rparr>;
        w4 = set_self self (\<lambda>p. p\<lparr>list_owned_roads := list_owned_roads p @ [road_name]\<rparr>) w3;
        w5 = set_self self
               (\<lambda>p. p\<lparr>dict_owned_houses_hotels := (dict_owned_houses_hotels p)(road_name \<mapsto> (0, 0))\<rparr>) w4;
        w6 = set_self self
               (\<lambda>p. p\<lparr>properties_total_mortgageable_amount :=
                         properties_total_mortgageable_amount p
                         + mortgage_value (road_objs w5 a)\<rparr>) w5
    in K w6)
   = K (paid self a road_name w)"
proof -
  have e: "(let w1 = w\<lparr>bank_cash := bank_cash w + price (road_objs w a)\<rparr>;
        w2 = set_self self (\<lambda>p. p\<lparr>cash := cash p - price (road_objs w a)\<rparr>) w1;
        w3 = w2\<lparr>road_objs := (road_objs w2)
               (a := (road_objs w2 a)\<lparr>belongs_to := Some (name (players w2 self))\<rparr>)\<rparr>;
        w4 = set_self self (\<lambda>p. p\<lparr>list_owned_roads := list_owned_roads p @ [road_name]\<rparr>) w3;
        w5 = set_self self
               (\<lambda>p. p\<lparr>dict_owned_houses_hotels := (dict_owned_houses_hotels p)(road_name \<mapsto> (0, 0))\<rparr>) w4;
        w6 = set_self self
               (\<lambda>p. p\<lparr>properties_total_mortgageable_amount :=
                         properties_total_mortgageable_amount p
                         + mortgage_value (road_objs w5 a)\<rparr>) w5
    in w6) = paid self a road_name w"
    by (simp add: Let_def set_self_def paid_def)
  show ?thesis
    using arg_cong [OF e [unfolded Let_def], of K] unfolding Let_def .
qed

lemma paid_simps:
  "bank_cash (paid self a road_name w) = bank_cash w + price (road_objs w a)"
  "cash (players (paid self a road_name w) self) = cash (players w self) - price (road_objs w a)"
  "list_owned_roads (players (paid self a road_name w) self) = list_owned_roads (players w self) @ [road_name]"
  "dict_owned_houses_hotels (players (paid self a road_name w) self) =
     (dict_owned_houses_hotels (players w self))(road_name \<mapsto> (0, 0))"
  "properties_total_mortgageable_amount (players (paid self a road_name w) self) =
     properties_total_mortgageable_amount (players w self) + mortgage_value (road_objs w a)"
  "dict_owned_colors (players (paid self a road_name w) i) = dict_owned_colors (players w i)"
  "dict_roads (players (paid self a road_name w) i) = dict_roads (players w i)"
  "name (players (paid self a road_name w) i) = name (players w i)"
  "i \<noteq> self \<Longrightarrow> players (paid self a road_name w) i = players w i"
  "road_objs (paid self a road_name w) a = (road_objs w a)\<lparr>belongs_to := Some (name (players w self))\<rparr>"
  "b \<noteq> a \<Longrightarrow> road_objs (paid self a road_name w) b = road_objs w b"
  "color (road_objs (paid self a road_name w) b) = color (road_objs w b)"
  "price (road_objs (paid self a road_name w) b) = price (road_objs w b)"
  "mortgage_value (road_objs (paid self a road_name w) b) = mortgage_value (road_objs w b)"
  by (simp_all add: paid_def)

lemma Player_no_brown_buy_paid:
  assumes "color (road_objs w a) \<noteq> ''brown''"
    and "\<not> cash (players w self) < price (road_objs w a)"
  shows "Player_no_brown_buy self a road_name w =
    (case count_roads_of_color (dict_roads (players w self)) (road_objs (paid self a road_name w))
            (color (road_objs w a)) (list_owned_roads (players w self) @ [road_name]) 0 of
       Inl e \<Rightarrow> (Raised e, paid self a road_name w)
     | Inr k \<Rightarrow> (Returned, if threshold (color (road_objs w a)) = Some k
                           then mark self (color (road_objs w a)) (paid self a road_name w)
                           else paid self a road_name w))"
proof -
  have "Player_no_brown_buy self a road_name w =
     (let c = color (road_objs (paid self a road_name w) a)
      in case count_roads_of_color (dict_roads (players (paid self a road_name w) self))
                (road_objs (paid self a road_name w)) c
                (list_owned_roads (players (paid self a road_name w) self)) 0 of
           Inl e \<Rightarrow> (Raised e, paid self a road_name w)
         | Inr count \<Rightarrow> (Returned, if threshold c = Some count
                                   then mark self c (paid self a road_name w)
                                   else paid self a road_name w))"
    unfolding Player_no_brown_buy_def Let_def [of "price (road_objs w a)"] chain_threshold
    using assms by (simp only: if_False six_writes_let if_True refl)
  then show ?thesis
    by (simp only: Let_def paid_simps(3,7,12))
qed


lemma count_roads_of_color_dom:
  "set roads \<subseteq> dom dr \<Longrightarrow>
     count_roads_of_color dr objs c roads n = Inr (n + roads_of_color dr objs c roads)"
proof (induction roads arbitrary: n)
  case Nil
  then show ?case by (simp add: roads_of_color_def)
next
  case (Cons road roads)
  from Cons.prems obtain a where a: "dr road = Some a" by auto
  from Cons.prems have "set roads \<subseteq> dom dr" by simp
  with Cons.IH a show ?case by (simp add: roads_of_color_def)
qed

lemma count_roads_of_color_missing:
  "\<not> set roads \<subseteq> dom dr \<Longrightarrow>
     \<exists>road. road \<in> set roads \<and> dr road = None
        \<and> count_roads_of_color dr objs c roads n = Inl (KeyError road)"
proof (induction roads arbitrary: n)
  case Nil
  then show ?case by simp
next
  case (Cons road roads)
  show ?case
  proof (cases "dr road")
    case None
    then show ?thesis by auto
  next
    case (Some a)
    with Cons.prems have "\<not> set roads \<subseteq> dom dr" by auto
    from Cons.IH [OF this] Some show ?thesis by auto
  qed
qed

lemma roads_of_color_cong:
  "(\<And>b. color (objs b) = color (objs' b)) \<Longrightarrow>
     roads_of_color dr objs c roads = roads_of_color dr objs' c roads"
  by (simp add: roads_of_color_def cong: option.case_cong)

lemma roads_of_color_paid:
  "roads_of_color dr (road_objs (paid self a road_name w)) c roads =
   roads_of_color dr (road_objs w) c roads"
  by (rule roads_of_color_cong) (simp add: paid_simps)

lemma Player_no_brown_buy_enough:
  assumes "color (road_objs w a) \<noteq> ''brown''"
    and "price (road_objs w a) \<le> cash (players w self)"
  shows "snd (Player_no_brown_buy self a road_name w) =
      (if set (list_owned_roads (players w self) @ [road_name]) \<subseteq> dom (dict_roads (players w self))
          \<and> threshold (color (road_objs w a)) =
                Some (roads_of_color (dict_roads (players w self)) (road_objs w)
                        (color (road_objs w a)) (list_owned_roads (players w self) @ [road_name]))
       then mark self (color (road_objs w a)) (paid self a road_name w)
       else paid self a road_name w)"
    and "(fst (Player_no_brown_buy self a road_name w) = Returned) =
      (set (list_owned_roads (players w self) @ [road_name]) \<subseteq> dom (dict_roads (players w self)))"
proof -
  let ?ok = "set (list_owned_roads (players w self) @ [road_name]) \<subseteq> dom (dict_roads (players w self))"
  from assms(2) have c: "\<not> cash (players w self) < price (road_objs w a)" by simp
  note unf = Player_no_brown_buy_paid [OF assms(1) c, of road_name]
  have "snd (Player_no_brown_buy self a road_name w) =
      (if ?ok \<and> threshold (color (road_objs w a)) =
                Some (roads_of_color (dict_roads (players w self)) (road_objs w)
                        (color (road_objs w a)) (list_owned_roads (players w self) @ [road_name]))
       then mark self (color (road_objs w a)) (paid self a road_name w)
       else paid self a road_name w)
     \<and> (fst (Player_no_brown_buy self a road_name w) = Returned) = ?ok"
  proof (cases ?ok)
    case True
    from count_roads_of_color_dom [OF True, of "road_objs (paid self a road_name w)" "color (road_objs w a)" 0]
    show ?thesis using True unf by (simp add: roads_of_color_paid)
  next
    case False
    from count_roads_of_color_missing [OF False, of "road_objs (paid self a road_name w)" "color (road_objs w a)" 0]
    obtain road where "count_roads_of_color (dict_roads (players w self)) (road_objs (paid self a road_name w))
        (color (road_objs w a)) (list_owned_roads (players w self) @ [road_name]) 0 = Inl (KeyError road)"
      by blast
    with unf False show ?thesis by auto
  qed
  then show "snd (Player_no_brown_buy self a road_name w) =
      (if ?ok \<and> threshold (color (road_objs w a)) =
                Some (roads_of_color (dict_roads (players w self)) (road_objs w)
                        (color (road_objs w a)) (list_owned_roads (players w self) @ [road_name]))
       then mark self (color (road_objs w a)) (paid self a road_name w)
       else paid self a road_name w)"
    and "(fst (Player_no_brown_buy self a road_name w) = Returned) = ?ok"
    by blast+
qed

lemma mark_simps:
  "bank_cash (mark self c w) = bank_cash w"
  "road_objs (mark self c w) = road_objs w"
  "cash (players (mark self c w) i) = cash (players w i)"
  "name (players (mark self c w) i) = name (players w i)"
  "list_owned_roads (players (mark self c w) i) = list_owned_roads (players w i)"
  "dict_owned_houses_hotels (players (mark self c w) i) = dict_owned_houses_hotels (players w i)"
  "properties_total_mortgageable_amount (players (mark self c w) i) =
     properties_total_mortgageable_amount (players w i)"
  "dict_roads (players (mark self c w) i) = dict_roads (players w i)"
  "dict_owned_colors (players (mark self c w) self) = (dict_owned_colors (players w self))(c \<mapsto> True)"
  "i \<noteq> self \<Longrightarrow> players (mark self c w) i = players w i"
  by (simp_all add: mark_def set_self_def)

lemma total_cash_paid: "total_cash (paid self a road_name w) = total_cash w"
  by (cases self) (simp_all add: total_cash_def paid_def)

lemma total_cash_mark: "total_cash (mark self c w) = total_cash w"
  by (simp add: total_cash_def mark_simps)

lemma Player_no_brown_buy_brown:
  "color (road_objs w a) = ''brown'' \<Longrightarrow> Player_no_brown_buy self a road_name w = (Returned, w)"
  by (simp add: Player_no_brown_buy_def)

lemma Player_no_brown_buy_short:
  "color (road_objs w a) \<noteq> ''brown'' \<Longrightarrow> cash (players w self) < price (road_objs w a) \<Longrightarrow>
     snd (Player_no_brown_buy self a road_name w) = w"
  by (simp add: Player_no_brown_buy_def)

lemma snd_buy_cases:
  "snd (Player_no_brown_buy self a road_name w) = w
   \<or> color (road_objs w a) \<noteq> ''brown'' \<and>
      (snd (Player_no_brown_buy self a road_name w) = paid self a road_name w
       \<or> snd (Player_no_brown_buy self a road_name w)
           = mark self (color (road_objs w a)) (paid self a road_name w))"
proof (cases "color (road_objs w a) = ''brown''")
  case True
  then show ?thesis by (simp add: Player_no_brown_buy_brown)
next
  case nb: False
  show ?thesis
  proof (cases "cash (players w self) < price (road_objs w a)")
    case True
    with nb show ?thesis by (simp add: Player_no_brown_buy_short)
  next
    case False
    then have "price (road_objs w a) \<le> cash (players w self)" by simp
    from Player_no_brown_buy_enough(1) [OF nb this, of road_name] nb
    show ?thesis by (simp split: if_splits)
  qed
qed

lemma buy_of_eq: "buy_of impl = Player_no_brown_buy"
  by (cases impl) (simp_all add: buy_new_eq)

lemma dict_owned_colors_paid_mark:
  "dict_owned_colors (players w i) c = Some True \<Longrightarrow>
     dict_owned_colors (players (mark self c' w) i) c = Some True"
  by (cases "i = self") (simp_all add: mark_simps)

lemma buy_keeps_marks:
  assumes "dict_owned_colors (players w i) c = Some True"
  shows "dict_owned_colors (players (snd (Player_no_brown_buy self a road_name w)) i) c = Some True"
  using snd_buy_cases [of self a road_name w] assms
  by (auto simp: paid_simps dict_owned_colors_paid_mark)

lemma run_calls_keeps_marks:
  "dict_owned_colors (players w i) c = Some True \<Longrightarrow>
     dict_owned_colors (players (run_calls calls w) i) c = Some True"
proof (induction calls arbitrary: w)
  case Nil
  then show ?case by simp
next
  case (Cons call calls)
  obtain impl self a road_name where call: "call = (impl, self, a, road_name)"
    by (cases call) auto
  from Cons.prems have "dict_owned_colors (players (snd (buy_of impl self a road_name w)) i) c = Some True"
    by (simp add: buy_of_eq buy_keeps_marks)
  from Cons.IH [OF this] show ?case by (simp add: call)
qed

lemma mark_idem:
  "dict_owned_colors (players w i) c = Some True \<Longrightarrow> mark i c w = w"
  by (simp add: mark_def set_self_def fun_upd_idem)

lemma buy_keeps_brown_objs:
  assumes "color (road_objs w b) = ''brown''"
  shows "road_objs (snd (Player_no_brown_buy self a road_name w)) b = road_objs w b"
proof -
  from snd_buy_cases [of self a road_name w]
  show ?thesis
  proof
    assume "snd (Player_no_brown_buy self a road_name w) = w"
    then show ?thesis by simp
  next
    assume r: "color (road_objs w a) \<noteq> ''brown'' \<and>
      (snd (Player_no_brown_buy self a road_name w) = paid self a road_name w
       \<or> snd (Player_no_brown_buy self a road_name w)
           = mark self (color (road_objs w a)) (paid self a road_name w))"
    with assms have "b \<noteq> a" by auto
    with r show ?thesis by (auto simp: paid_simps mark_simps)
  qed
qed

lemma run_calls_keeps_brown_objs:
  "color (road_objs w b) = ''brown'' \<Longrightarrow> road_objs (run_calls calls w) b = road_objs w b"
proof (induction calls arbitrary: w)
  case Nil
  then show ?case by simp
next
  case (Cons call calls)
  obtain impl self a road_name where call: "call = (impl, self, a, road_name)"
    by (cases call) auto
  let ?w = "snd (buy_of impl self a road_name w)"
  have e: "road_objs ?w b = road_objs w b"
    using Cons.prems by (simp add: buy_of_eq buy_keeps_brown_objs)
  with Cons.prems have "color (road_objs ?w b) = ''brown''" by simp
  from Cons.IH [OF this] e show ?case by (simp add: call)
qed

lemma buy_marks_at_threshold:
  assumes "buy = Player_no_brown_buy \<or> buy = buy_new"
    and "color (road_objs w a) \<noteq> ''brown''"
    and "price (road_objs w a) \<le> cash (players w self)"
  shows "dict_owned_colors (players (snd (buy self a road_name w)) self) =
      (if fst (buy self a road_name w) = Returned
          \<and> threshold (color (road_objs w a)) =
              Some (roads_of_color (dict_roads (players w self)) (road_objs w) (color (road_objs w a))
                      (list_owned_roads (players w self) @ [road_name]))
       then (dict_owned_colors (players w self))(color (road_objs w a) \<mapsto> True)
       else dict_owned_colors (players w self))"
proof -
  from assms(1) have b: "buy = Player_no_brown_buy" by (auto simp: buy_new_eq)
  show ?thesis
    unfolding b Player_no_brown_buy_enough [OF assms(2,3)]
    by (simp add: mark_simps paid_simps)
qed

lemma buy_frame:
  "dict_roads (players (snd (Player_no_brown_buy self a road_name w)) i) = dict_roads (players w i)"
  "color (road_objs (snd (Player_no_brown_buy self a road_name w)) b) = color (road_objs w b)"
  using snd_buy_cases [of self a road_name w]
  by (auto simp: paid_simps mark_simps)

lemma roads_of_color_snoc:
  "dr road_name = Some a \<Longrightarrow>
     roads_of_color dr objs c (roads @ [road_name])
       = roads_of_color dr objs c roads + (if c = color (objs a) then 1 else 0)"
  by (simp add: roads_of_color_def)

lemma threshold_positive: "threshold c = Some required \<Longrightarrow> 0 < required"
  by (auto simp: threshold_def split: if_splits)

lemma fresh_marks_match:
  assumes "list_owned_roads (players w i) = []"
    and "\<forall>c. dict_owned_colors (players w i) c \<noteq> Some True"
  shows "marks_match_counts w i"
  using assms by (auto simp: marks_match_counts_def roads_of_color_def dest: threshold_positive)

lemma marks_match_other:
  assumes "marks_match_counts w i" and "players w' i = players w i"
    and "\<And>b. color (road_objs w' b) = color (road_objs w b)"
  shows "marks_match_counts w' i"
proof -
  have "roads_of_color dr (road_objs w') c roads = roads_of_color dr (road_objs w) c roads"
    for dr c roads
    by (rule roads_of_color_cong) (rule assms(3))
  with assms(1,2) show ?thesis by (simp add: marks_match_counts_def)
qed

lemma marks_match_step:
  assumes inv: "marks_match_counts w i"
    and tab: "dict_roads (players w self) road_name = Some a"
  shows "marks_match_counts (snd (Player_no_brown_buy self a road_name w)) i"
proof (cases "color (road_objs w a) \<noteq> ''brown'' \<and> price (road_objs w a) \<le> cash (players w self)")
  case False
  then have "snd (Player_no_brown_buy self a road_name w) = w"
    by (cases "color (road_objs w a) = ''brown''")
      (simp_all add: Player_no_brown_buy_brown Player_no_brown_buy_short not_le)
  with inv show ?thesis by simp
next
  case True
  then have nb: "color (road_objs w a) \<noteq> ''brown''"
    and en: "price (road_objs w a) \<le> cash (players w self)" by simp_all
  let ?w = "snd (Player_no_brown_buy self a road_name w)"
  let ?c = "color (road_objs w a)"
  show ?thesis
  proof (cases "i = self")
    case False
    have "players ?w i = players w i"
      using snd_buy_cases [of self a road_name w] False
      by (auto simp: paid_simps mark_simps)
    with inv show ?thesis by (rule marks_match_other) (rule buy_frame)
  next
    case self: True
    let ?dr = "dict_roads (players w self)"
    let ?owned = "list_owned_roads (players w self)"
    from inv self have dom: "set ?owned \<subseteq> dom ?dr"
      and m: "\<And>c. dict_owned_colors (players w self) c = Some True \<longleftrightarrow>
            (\<exists>required. threshold c = Some required
               \<and> required \<le> roads_of_color ?dr (road_objs w) c ?owned)"
      by (simp_all add: marks_match_counts_def)
    from dom tab have ok: "set (?owned @ [road_name]) \<subseteq> dom ?dr" by auto
    from Player_no_brown_buy_enough(2) [OF nb en, of road_name] ok
    have ret: "fst (Player_no_brown_buy self a road_name w) = Returned" by simp
    have owned': "list_owned_roads (players ?w self) = ?owned @ [road_name]"
      using Player_no_brown_buy_enough(1) [OF nb en, of road_name]
      by (simp add: paid_simps mark_simps)
    have dr': "dict_roads (players ?w self) = ?dr" by (rule buy_frame)
    have cnt: "roads_of_color ?dr (road_objs ?w) c (?owned @ [road_name])
        = roads_of_color ?dr (road_objs w) c ?owned + (if c = ?c then 1 else 0)" for c
    proof -
      have "roads_of_color ?dr (road_objs ?w) c (?owned @ [road_name])
          = roads_of_color ?dr (road_objs w) c (?owned @ [road_name])"
        by (rule roads_of_color_cong) (rule buy_frame)
      with roads_of_color_snoc [of ?dr road_name a "road_objs w" c ?owned] tab
      show ?thesis by simp
    qed
    have marks': "dict_owned_colors (players ?w self) =
      (if threshold ?c = Some (roads_of_color ?dr (road_objs w) ?c ?owned + 1)
       then (dict_owned_colors (players w self))(?c \<mapsto> True)
       else dict_owned_colors (players w self))"
      using buy_marks_at_threshold [of Player_no_brown_buy w a self road_name] nb en ret
        roads_of_color_snoc [of ?dr road_name a "road_objs w" ?c ?owned] tab
      by simp
    have "dict_owned_colors (players ?w self) c = Some True \<longleftrightarrow>
            (\<exists>required. threshold c = Some required
               \<and> required \<le> roads_of_color ?dr (road_objs w) c ?owned + (if c = ?c then 1 else 0))"
      for c
      using m [of c] by (auto simp: marks')
    with ok owned' dr' cnt self show ?thesis
      by (simp add: marks_match_counts_def)
  qed
qed

lemma table_calls_cong:
  "(\<And>i. dict_roads (players w' i) = dict_roads (players w i)) \<Longrightarrow>
     table_calls w' calls = table_calls w calls"
  by (induction calls) auto

lemma run_calls_marks_match:
  "marks_match_counts w i \<Longrightarrow> table_calls w calls \<Longrightarrow> marks_match_counts (run_calls calls w) i"
proof (induction calls arbitrary: w)
  case Nil
  then show ?case by simp
next
  case (Cons call calls)
  obtain impl self a road_name where call: "call = (impl, self, a, road_name)"
    by (cases call) auto
  let ?w = "snd (Player_no_brown_buy self a road_name w)"
  from Cons.prems(2) call have tab: "dict_roads (players w self) road_name = Some a"
    and rest: "table_calls w calls" by simp_all
  have a: "marks_match_counts ?w i" by (rule marks_match_step [OF Cons.prems(1) tab])
  have b: "table_calls ?w calls"
    using rest table_calls_cong [of ?w w calls] by (simp add: buy_frame)
  from Cons.IH [OF a b] show ?case by (simp add: call buy_of_eq)
qed

lemma run_calls_dict_roads:
  "dict_roads (players (run_calls calls w) i) = dict_roads (players w i)"
proof (induction calls arbitrary: w)
  case Nil
  then show ?case by simp
next
  case (Cons call calls)
  obtain impl self a road_name where call: "call = (impl, self, a, road_name)"
    by (cases call) auto
  from Cons.IH [of "snd (Player_no_brown_buy self a road_name w)"]
  show ?case by (simp add: call buy_of_eq buy_frame)
qed

lemma buy_enough_fields:
  assumes "color (road_objs w a) \<noteq> ''brown''"
    and "price (road_objs w a) \<le> cash (players w self)"
  shows "list_owned_roads (players (snd (Player_no_brown_buy self a road_name w)) self)
           = list_owned_roads (players w self) @ [road_name]"
    and "cash (players (snd (Player_no_brown_buy self a road_name w)) self)
           = cash (players w self) - price (road_objs w a)"
    and "road_objs (snd (Player_no_brown_buy self a road_name w))
           = (road_objs w)(a := (road_objs w a)\<lparr>belongs_to := Some (name (players w self))\<rparr>)"
  using Player_no_brown_buy_enough(1) [OF assms, of road_name]
  by (simp_all add: paid_simps mark_simps paid_def)


text \<open>The example state, field by field.\<close>

lemma ex_world_simps:
  "bank_cash (ex_world c owned) = 1000"
  "road_objs (ex_world c owned) = ex_objs"
  "players (ex_world c owned) P1 = ex_player ''player1'' c owned"
  "players (ex_world c owned) P2 = ex_player ''player2'' 1500 []"
  by (simp_all add: ex_world_def)

lemma ex_player_simps:
  "name (ex_player nm c owned) = nm"
  "cash (ex_player nm c owned) = c"
  "list_owned_roads (ex_player nm c owned) = owned"
  "properties_total_mortgageable_amount (ex_player nm c owned) = 0"
  "dict_owned_colors (ex_player nm c owned) = Map.empty"
  "dict_roads (ex_player nm c owned) = ex_dict_roads"
  by (simp_all add: ex_player_def)

lemma ex_objs_simps:
  "ex_objs 0 = \<lparr>color = ''brown'', price = 60, mortgage_value = 30, belongs_to = None\<rparr>"
  "ex_objs 2 = \<lparr>color = ''light_blue'', price = 100, mortgage_value = 50, belongs_to = None\<rparr>"
  "ex_objs 5 = \<lparr>color = ''blue'', price = 350, mortgage_value = 175, belongs_to = None\<rparr>"
  "ex_objs 6 = \<lparr>color = ''blue'', price = 400, mortgage_value = 200, belongs_to = None\<rparr>"
  by (simp_all add: ex_objs_def)

lemma run_calls_color:
  "color (road_objs (run_calls calls w) b) = color (road_objs w b)"
proof (induction calls arbitrary: w)
  case Nil
  then show ?case by simp
next
  case (Cons call calls)
  obtain impl self a road_name where call: "call = (impl, self, a, road_name)"
    by (cases call) auto
  from Cons.IH [of "snd (Player_no_brown_buy self a road_name w)"]
  show ?case by (simp add: call buy_of_eq buy_frame)
qed

lemma run_calls_snoc:
  "run_calls (calls @ [(impl, self, a, road_name)]) w
     = snd (Player_no_brown_buy self a road_name (run_calls calls w))"
  by (induction calls arbitrary: w) (auto simp: buy_of_eq)

lemma buy_price_frame:
  "price (road_objs (snd (Player_no_brown_buy self a road_name w)) b) = price (road_objs w b)"
  using snd_buy_cases [of self a road_name w]
  by (auto simp: paid_simps mark_simps)

lemma ex_first_buy:
  "list_owned_roads (players (run_calls [(Subclass, P1, 5, ''park_place'')] (ex_world 1500 [])) P1)
     = [''park_place'']"
  "cash (players (run_calls [(Subclass, P1, 5, ''park_place'')] (ex_world 1500 [])) P1) = 1150"
proof -
  have nb: "color (road_objs (ex_world 1500 []) 5) \<noteq> ''brown''"
    by (simp add: ex_world_simps ex_objs_simps)
  have en: "price (road_objs (ex_world 1500 []) 5) \<le> cash (players (ex_world 1500 []) P1)"
    by (simp add: ex_world_simps ex_objs_simps ex_player_simps)
  from buy_enough_fields(1,2) [OF nb en, of "''park_place''"]
  show "list_owned_roads (players (run_calls [(Subclass, P1, 5, ''park_place'')] (ex_world 1500 [])) P1)
     = [''park_place'']"
    and "cash (players (run_calls [(Subclass, P1, 5, ''park_place'')] (ex_world 1500 [])) P1) = 1150"
    by (simp_all add: ex_world_simps ex_objs_simps ex_player_simps)
qed

lemma ex_second_buy:
  "list_owned_roads
     (players (run_calls [(Subclass, P1, 5, ''park_place''), (MethodType, P1, 6, ''boardwalk'')]
        (ex_world 1500 [])) P1) = [''park_place'', ''boardwalk'']"
proof -
  let ?w1 = "run_calls [(Subclass, P1, 5, ''park_place'')] (ex_world 1500 [])"
  have nb: "color (road_objs ?w1 6) \<noteq> ''brown''"
    by (simp add: run_calls_color ex_world_simps ex_objs_simps del: run_calls.simps)
  have "price (road_objs ?w1 6) = 400"
    by (simp add: buy_price_frame ex_world_simps ex_objs_simps)
  then have en: "price (road_objs ?w1 6) \<le> cash (players ?w1 P1)"
    by (simp add: ex_first_buy del: run_calls.simps)
  have "run_calls [(Subclass, P1, 5, ''park_place''), (MethodType, P1, 6, ''boardwalk'')] (ex_world 1500 [])
      = snd (Player_no_brown_buy P1 6 ''boardwalk'' ?w1)"
    using run_calls_snoc [of "[(Subclass, P1, 5, ''park_place'')]" MethodType P1 6 "''boardwalk''" "ex_world 1500 []"]
    by simp
  with buy_enough_fields(1) [OF nb en, of "''boardwalk''"] ex_first_buy(1)
  show ?thesis by simp
qed

section \<open>Facts about the trial loop\<close>

lemma trial_loop_rounds:
  "\<exists>k. trial_loop play has_lost list_players s idx_count
          = ((fold play list_players ^^ k) s, idx_count + k)
     \<and> (\<forall>j<k. \<not> has_lost P1 ((fold play list_players ^^ j) s)
              \<and> \<not> has_lost P2 ((fold play list_players ^^ j) s)
              \<and> idx_count + j < 1000)
     \<and> (has_lost P1 ((fold play list_players ^^ k) s)
        \<or> has_lost P2 ((fold play list_players ^^ k) s)
        \<or> 1000 \<le> idx_count + k)"
proof (induction play has_lost list_players s idx_count rule: trial_loop.induct)
  case (1 play has_lost list_players s idx_count)
  let ?R = "fold play list_players"
  show ?case
  proof (cases "\<not> has_lost P1 s \<and> \<not> has_lost P2 s \<and> idx_count < 1000")
    case True
    from "1.IH" [OF True] obtain k where
      k: "trial_loop play has_lost list_players (?R s) (idx_count + 1)
            = ((?R ^^ k) (?R s), idx_count + 1 + k)"
      and nl: "\<forall>j<k. \<not> has_lost P1 ((?R ^^ j) (?R s)) \<and> \<not> has_lost P2 ((?R ^^ j) (?R s))
                 \<and> idx_count + 1 + j < 1000"
      and st: "has_lost P1 ((?R ^^ k) (?R s)) \<or> has_lost P2 ((?R ^^ k) (?R s))
                 \<or> 1000 \<le> idx_count + 1 + k"
      by blast
    have a: "trial_loop play has_lost list_players s idx_count
               = ((?R ^^ Suc k) s, idx_count + Suc k)"
      using True k by (subst trial_loop.simps) (simp add: funpow_swap1)
    have b: "\<forall>j<Suc k. \<not> has_lost P1 ((?R ^^ j) s) \<and> \<not> has_lost P2 ((?R ^^ j) s)
                 \<and> idx_count + j < 1000"
    proof (intro allI impI)
      fix j assume "j < Suc k"
      show "\<not> has_lost P1 ((?R ^^ j) s) \<and> \<not> has_lost P2 ((?R ^^ j) s) \<and> idx_count + j < 1000"
      proof (cases j)
        case 0
        with True show ?thesis by simp
      next
        case (Suc j')
        with \<open>j < Suc k\<close> have "j' < k" by simp
        with nl Suc show ?thesis by (simp add: funpow_swap1)
      qed
    qed
    have c: "has_lost P1 ((?R ^^ Suc k) s) \<or> has_lost P2 ((?R ^^ Suc k) s)
                 \<or> 1000 \<le> idx_count + Suc k"
      using st by (simp add: funpow_swap1)
    from a b c show ?thesis by blast
  next
    case False
    then have "trial_loop play has_lost list_players s idx_count = ((?R ^^ 0) s, idx_count + 0)"
      by (subst trial_loop.simps) auto
    moreover from False have "has_lost P1 ((?R ^^ 0) s) \<or> has_lost P2 ((?R ^^ 0) s)
                 \<or> 1000 \<le> idx_count + 0" by auto
    ultimately show ?thesis by (intro exI [of _ 0]) simp
  qed
qed

lemma logged_has_lost_pair [simp]:
  "logged_has_lost has_lost p (s, lg) = has_lost p s"
  by (simp add: logged_has_lost_def)

lemma fold_logged_play:
  "fold (logged_play play) ps (s, lg) = (fold play ps s, lg @ round_calls play ps s)"
  by (induction ps arbitrary: s lg) (simp_all add: logged_play_def)

lemma map_fst_round_calls: "map fst (round_calls play ps s) = ps"
  by (induction ps arbitrary: s) simp_all

lemma logged_loop:
  "trial_loop play has_lost list_players s idx_count = ((fold play list_players ^^ k) s, idx_count + k)
   \<Longrightarrow> (\<forall>j<k. \<not> has_lost P1 ((fold play list_players ^^ j) s)
              \<and> \<not> has_lost P2 ((fold play list_players ^^ j) s)
              \<and> idx_count + j < 1000)
   \<Longrightarrow> (has_lost P1 ((fold play list_players ^^ k) s)
        \<or> has_lost P2 ((fold play list_players ^^ k) s)
        \<or> 1000 \<le> idx_count + k)
   \<Longrightarrow> trial_loop (logged_play play) (logged_has_lost has_lost) list_players (s, lg) idx_count
     = (((fold play list_players ^^ k) s,
         lg @ concat (map (\<lambda>j. round_calls play list_players ((fold play list_players ^^ j) s)) [0..<k])),
        idx_count + k)"
proof (induction k arbitrary: s lg idx_count)
  case 0
  then show ?case
    by (subst trial_loop.simps) auto
next
  case (Suc k)
  let ?R = "fold play list_players"
  from Suc.prems(2) have c0: "\<not> has_lost P1 s \<and> \<not> has_lost P2 s \<and> idx_count < 1000"
    by (auto dest: spec [of _ 0])
  have e: "trial_loop play has_lost list_players (?R s) (idx_count + 1)
            = ((?R ^^ k) (?R s), idx_count + 1 + k)"
    using Suc.prems(1) c0 by (subst (asm) trial_loop.simps) (simp add: funpow_swap1)
  have n: "\<forall>j<k. \<not> has_lost P1 ((?R ^^ j) (?R s)) \<and> \<not> has_lost P2 ((?R ^^ j) (?R s))
              \<and> idx_count + 1 + j < 1000"
  proof (intro allI impI)
    fix j assume "j < k"
    then have "Suc j < Suc k" by simp
    with Suc.prems(2) have "\<not> has_lost P1 ((?R ^^ Suc j) s) \<and> \<not> has_lost P2 ((?R ^^ Suc j) s)
              \<and> idx_count + Suc j < 1000" by blast
    then show "\<not> has_lost P1 ((?R ^^ j) (?R s)) \<and> \<not> has_lost P2 ((?R ^^ j) (?R s))
              \<and> idx_count + 1 + j < 1000" by (simp add: funpow_swap1)
  qed
  have st: "has_lost P1 ((?R ^^ k) (?R s)) \<or> has_lost P2 ((?R ^^ k) (?R s))
        \<or> 1000 \<le> idx_count + 1 + k"
    using Suc.prems(3) by (simp add: funpow_swap1)
  note ih = Suc.IH [OF e n st, of "lg @ round_calls play list_players s"]
  have m: "concat (map (\<lambda>j. round_calls play list_players ((?R ^^ j) s)) [0..<Suc k])
       = round_calls play list_players s
         @ concat (map (\<lambda>j. round_calls play list_players ((?R ^^ j) (?R s))) [0..<k])"
  proof -
    have "[0..<Suc k] = 0 # map Suc [0..<k]"
      by (simp add: upt_conv_Cons map_Suc_upt del: upt_Suc)
    then show ?thesis by (simp add: comp_def funpow_swap1 del: upt_Suc)
  qed
  show ?case
    apply (subst trial_loop.simps)
    using c0 ih m
    apply (simp add: fold_logged_play funpow_swap1 del: upt_Suc)
    done
qed

lemma trial_loop_cap:
  assumes "trial_loop play has_lost list_players s0 0 = ((fold play list_players ^^ k) s0, 0 + k)"
    and "\<forall>j<k. \<not> has_lost P1 ((fold play list_players ^^ j) s0)
              \<and> \<not> has_lost P2 ((fold play list_players ^^ j) s0)
              \<and> 0 + j < 1000"
  shows "k \<le> 1000"
proof (rule ccontr)
  assume "\<not> k \<le> 1000"
  then have "1000 < k" by simp
  with assms(2) have "(0::nat) + 1000 < 1000" by blast
  then show False by simp
qed




section \<open>Insufficient funds\<close>

text \<open>
  C2. A buy of a road whose colour is not brown, by a player whose cash is strictly
  below the road's price, raises the insufficient-funds exception and leaves the whole
  state as it was: bank cash, both players and every road object (so the road's owner
  field, the player's cash and the owned-roads list) are unchanged. Both transcriptions
  of the source behave so.
\<close>

theorem C2_insufficient_funds_raises_unchanged:
  assumes "color (road_objs w a) \<noteq> ''brown''"
    and "cash (players w self) < price (road_objs w a)"
  shows "Player_no_brown_buy self a road_name w =
           (Raised (Exception (''Player '' @ name (players w self) @ '' does not have enough money'')), w)
         \<and> buy_new self a road_name w =
           (Raised (Exception (''Player '' @ name (players w self) @ '' does not have enough money'')), w)"
  using assms by (simp add: Player_no_brown_buy_def buy_new_def)

theorem C2_witness:
  "Player_no_brown_buy P1 2 ''oriental_avenue'' (ex_world 50 []) =
     (Raised (Exception ''Player player1 does not have enough money''), ex_world 50 [])
   \<and> buy_new P1 2 ''oriental_avenue'' (ex_world 50 []) =
     (Raised (Exception ''Player player1 does not have enough money''), ex_world 50 [])
   \<and> price (road_objs (ex_world 50 []) 2) = 100
   \<and> belongs_to (road_objs (ex_world 50 []) 2) = None"
proof -
  have h1: "color (road_objs (ex_world 50 []) 2) \<noteq> ''brown''"
    by (simp add: ex_world_def ex_objs_def)
  have h2: "cash (players (ex_world 50 []) P1) < price (road_objs (ex_world 50 []) 2)"
    by (simp add: ex_world_def ex_objs_def ex_player_def)
  have nm: "name (players (ex_world 50 []) P1) = ''player1''"
    by (simp add: ex_world_def ex_player_def)
  have obj: "price (road_objs (ex_world 50 []) 2) = 100
             \<and> belongs_to (road_objs (ex_world 50 []) 2) = None"
    by (simp add: ex_world_def ex_objs_def)
  from C2_insufficient_funds_raises_unchanged [OF h1 h2, of "''oriental_avenue''"] nm obj
  show ?thesis by simp
qed

section \<open>A successful acquisition\<close>

text \<open>
  C1. A buy (by either variant method of the source) of a road whose colour is not brown,
  by a player whose cash is at least the road's price, takes exactly the price from the
  player's cash, adds exactly the price to the bank's cash, writes the player's name
  into the road's owner field, appends the road name at the end of the player's
  owned-roads list, sets the road's (houses, hotels) pair to (0, 0) and adds the road's
  mortgage value to the player's mortgageable total; the sum of the bank's and both
  players' cash is unchanged. These writes stand whether the counting loop that follows
  them returns or raises.
\<close>

theorem C1_successful_buy_ledger:
  assumes "buy = Player_no_brown_buy \<or> buy = buy_new"
    and "color (road_objs w a) \<noteq> ''brown''"
    and "price (road_objs w a) \<le> cash (players w self)"
  shows "cash (players (snd (buy self a road_name w)) self)
           = cash (players w self) - price (road_objs w a)
       \<and> bank_cash (snd (buy self a road_name w)) = bank_cash w + price (road_objs w a)
       \<and> belongs_to (road_objs (snd (buy self a road_name w)) a) = Some (name (players w self))
       \<and> list_owned_roads (players (snd (buy self a road_name w)) self)
           = list_owned_roads (players w self) @ [road_name]
       \<and> dict_owned_houses_hotels (players (snd (buy self a road_name w)) self) road_name = Some (0, 0)
       \<and> properties_total_mortgageable_amount (players (snd (buy self a road_name w)) self)
           = properties_total_mortgageable_amount (players w self) + mortgage_value (road_objs w a)
       \<and> total_cash (snd (buy self a road_name w)) = total_cash w"
proof -
  from assms(1) have b: "buy = Player_no_brown_buy" by (auto simp: buy_new_eq)
  have "snd (buy self a road_name w) = paid self a road_name w
        \<or> snd (buy self a road_name w) = mark self (color (road_objs w a)) (paid self a road_name w)"
    unfolding b using Player_no_brown_buy_enough(1) [OF assms(2,3), of road_name]
    by (simp split: if_splits)
  then show ?thesis
    by (auto simp: paid_simps mark_simps total_cash_paid total_cash_mark)
qed

theorem C1_witness:
  "cash (players (snd (buy_new P1 2 ''oriental_avenue'' (ex_world 1500 []))) P1) = 1400
   \<and> bank_cash (snd (buy_new P1 2 ''oriental_avenue'' (ex_world 1500 []))) = 1100
   \<and> belongs_to (road_objs (snd (buy_new P1 2 ''oriental_avenue'' (ex_world 1500 []))) 2) = Some ''player1''
   \<and> list_owned_roads (players (snd (buy_new P1 2 ''oriental_avenue'' (ex_world 1500 []))) P1)
       = [''oriental_avenue'']
   \<and> dict_owned_houses_hotels (players (snd (buy_new P1 2 ''oriental_avenue'' (ex_world 1500 []))) P1)
       ''oriental_avenue'' = Some (0, 0)
   \<and> properties_total_mortgageable_amount
       (players (snd (buy_new P1 2 ''oriental_avenue'' (ex_world 1500 []))) P1) = 50
   \<and> total_cash (snd (buy_new P1 2 ''oriental_avenue'' (ex_world 1500 []))) = 4000"
proof -
  have h1: "buy_new = Player_no_brown_buy \<or> buy_new = buy_new" by simp
  have h2: "color (road_objs (ex_world 1500 []) 2) \<noteq> ''brown''"
    by (simp add: ex_world_simps ex_objs_simps)
  have h3: "price (road_objs (ex_world 1500 []) 2) \<le> cash (players (ex_world 1500 []) P1)"
    by (simp add: ex_world_simps ex_objs_simps ex_player_simps)
  have t: "total_cash (ex_world 1500 []) = 4000"
    by (simp add: total_cash_def ex_world_simps ex_player_simps)
  from C1_successful_buy_ledger [OF h1 h2 h3, of "''oriental_avenue''"] t
  show ?thesis by (simp add: ex_world_simps ex_objs_simps ex_player_simps)
qed

section \<open>Marking a colour group\<close>

text \<open>
  C3. In a game that starts with a player owning no road and having no colour group
  marked, and in which every buy call is handed the road table's entry for the road
  name, the player's colour group is marked complete, after any sequence of buy calls
  (so after every acquisition), exactly when the number of the player's own currently
  owned roads of that colour meets or exceeds the colour's threshold in the table
  brown 2, light_blue 3, purple 3, orange 3, red 3, yellow 3, green 3, blue 2. So a
  player owning threshold - 1 roads of a colour does not have the group marked, and a
  player owning exactly the threshold does. The code tests the count for equality with
  the threshold; each call appends one road name, so the count reaches the threshold
  before it can exceed it.
\<close>

theorem C3_marked_iff_count_meets_threshold:
  assumes "list_owned_roads (players w0 i) = []"
    and "\<forall>c. dict_owned_colors (players w0 i) c \<noteq> Some True"
    and "table_calls w0 calls"
  shows "dict_owned_colors (players (run_calls calls w0) i) c = Some True \<longleftrightarrow>
     (\<exists>required. threshold c = Some required
        \<and> required \<le> roads_of_color (dict_roads (players (run_calls calls w0) i))
                        (road_objs (run_calls calls w0)) c
                        (list_owned_roads (players (run_calls calls w0) i)))"
proof -
  have "marks_match_counts w0 i" by (rule fresh_marks_match [OF assms(1,2)])
  then have "marks_match_counts (run_calls calls w0) i"
    using assms(3) by (rule run_calls_marks_match)
  then show ?thesis by (simp add: marks_match_counts_def)
qed

theorem C3_witness:
  "dict_owned_colors
     (players (run_calls [(Subclass, P1, 5, ''park_place''), (MethodType, P1, 6, ''boardwalk'')]
        (ex_world 1500 [])) P1) ''blue'' = Some True
   \<and> dict_owned_colors
     (players (run_calls [(Subclass, P1, 5, ''park_place'')] (ex_world 1500 [])) P1) ''blue''
       \<noteq> Some True"
proof -
  let ?w0 = "ex_world 1500 []"
  let ?one = "[(Subclass, P1, 5, ''park_place'')]"
  let ?two = "[(Subclass, P1, 5, ''park_place''), (MethodType, P1, 6, ''boardwalk'')]"
  have f1: "list_owned_roads (players ?w0 P1) = []"
    and f2: "\<forall>c. dict_owned_colors (players ?w0 P1) c \<noteq> Some True"
    by (simp_all add: ex_world_simps ex_player_simps)
  have t1: "table_calls ?w0 ?one" and t2: "table_calls ?w0 ?two"
    by (simp_all add: ex_world_simps ex_player_simps ex_dict_roads_def)
  have t: "threshold ''blue'' = Some 2" by (simp add: threshold_def)
  have n1: "roads_of_color (dict_roads (players (run_calls ?one ?w0) P1)) (road_objs (run_calls ?one ?w0))
        ''blue'' (list_owned_roads (players (run_calls ?one ?w0) P1)) = 1"
    unfolding ex_first_buy run_calls_dict_roads
    by (simp add: roads_of_color_def run_calls_color ex_world_simps ex_player_simps
          ex_dict_roads_def ex_objs_simps del: run_calls.simps)
  have n2: "roads_of_color (dict_roads (players (run_calls ?two ?w0) P1)) (road_objs (run_calls ?two ?w0))
        ''blue'' (list_owned_roads (players (run_calls ?two ?w0) P1)) = 2"
    unfolding ex_second_buy run_calls_dict_roads
    by (simp add: roads_of_color_def run_calls_color ex_world_simps ex_player_simps
          ex_dict_roads_def ex_objs_simps del: run_calls.simps)
  from C3_marked_iff_count_meets_threshold [OF f1 f2 t2, of "''blue''"]
  have a: "dict_owned_colors (players (run_calls ?two ?w0) P1) ''blue'' = Some True"
    by (simp only: n2 t) simp
  from C3_marked_iff_count_meets_threshold [OF f1 f2 t1, of "''blue''"]
  have b: "dict_owned_colors (players (run_calls ?one ?w0) P1) ''blue'' \<noteq> Some True"
    by (simp only: n1 t) simp
  from a b show ?thesis by blast
qed

section \<open>Marked groups stay marked\<close>

text \<open>
  C6. Once a colour group of a player is marked complete, it is still marked after any
  sequence of buy calls of the source's variant methods, by either player and on any
  roads: the code only ever assigns True to an entry of the owned-colours map. Marking
  a group that is already marked changes nothing.
\<close>

theorem C6_marked_groups_stay_marked:
  "(dict_owned_colors (players w i) c = Some True \<longrightarrow>
      dict_owned_colors (players (run_calls calls w) i) c = Some True)
   \<and> (dict_owned_colors (players w i) c = Some True \<longrightarrow> mark i c w = w)"
  by (simp add: run_calls_keeps_marks mark_idem)

theorem C6_witness:
  "dict_owned_colors
     (players (run_calls [(MethodType, P1, 2, ''oriental_avenue''), (Subclass, P2, 6, ''boardwalk'')]
        (mark P1 ''blue'' (ex_world 1500 []))) P1) ''blue'' = Some True
   \<and> mark P1 ''blue'' (mark P1 ''blue'' (ex_world 1500 [])) = mark P1 ''blue'' (ex_world 1500 [])"
proof -
  have h: "dict_owned_colors (players (mark P1 ''blue'' (ex_world 1500 [])) P1) ''blue'' = Some True"
    by (simp add: mark_simps)
  from C6_marked_groups_stay_marked
    [of "mark P1 ''blue'' (ex_world 1500 [])" P1 "''blue''"
        "[(MethodType, P1, 2, ''oriental_avenue''), (Subclass, P2, 6, ''boardwalk'')]"] h
  show ?thesis by simp
qed

section \<open>The variant never buys brown\<close>

text \<open>
  C7. A buy call of the no-brown variant (the decorator around any wrapped method, the
  subclass method, \<^verbatim>\<open>buy_new\<close>) on a road whose colour is brown returns without raising
  and leaves the whole state as it was, whatever the player's cash. Consequently no
  sequence of calls of the variant methods changes a brown road object: its owner field
  is never set by them.
\<close>

theorem C7_brown_never_bought:
  "(color (road_objs (w::world) a) = ''brown'' \<longrightarrow>
      modify_buy buy self a road_name w = (Returned, w)
      \<and> Player_no_brown_buy self a road_name w = (Returned, w)
      \<and> buy_new self a road_name w = (Returned, w))
   \<and> (color (road_objs w b) = ''brown'' \<longrightarrow>
        road_objs (run_calls calls w) b = road_objs w b)"
  by (simp add: run_calls_keeps_brown_objs Player_no_brown_buy_brown modify_buy_def buy_new_eq)

theorem C7_witness:
  "modify_buy Player_buy P1 0 ''mediterranean_avenue'' (ex_world 50 []) = (Returned, ex_world 50 [])
   \<and> Player_no_brown_buy P1 0 ''mediterranean_avenue'' (ex_world 50 []) = (Returned, ex_world 50 [])
   \<and> buy_new P1 0 ''mediterranean_avenue'' (ex_world 50 []) = (Returned, ex_world 50 [])
   \<and> price (road_objs (ex_world 50 []) 0) = 60
   \<and> cash (players (ex_world 50 []) P1) = 50
   \<and> belongs_to (road_objs
        (run_calls [(Subclass, P1, 0, ''mediterranean_avenue''), (MethodType, P2, 2, ''oriental_avenue''),
                    (MethodType, P2, 0, ''mediterranean_avenue'')] (ex_world 50 [])) 0) = None"
proof -
  have h: "color (road_objs (ex_world 50 []) 0) = ''brown''"
    by (simp add: ex_world_simps ex_objs_simps)
  have o: "price (road_objs (ex_world 50 []) 0) = 60" "cash (players (ex_world 50 []) P1) = 50"
    "belongs_to (road_objs (ex_world 50 []) 0) = None"
    by (simp_all add: ex_world_simps ex_objs_simps ex_player_simps)
  from C7_brown_never_bought
    [of "ex_world 50 []" 0 Player_buy P1 "''mediterranean_avenue''" 0
        "[(Subclass, P1, 0, ''mediterranean_avenue''), (MethodType, P2, 2, ''oriental_avenue''),
          (MethodType, P2, 0, ''mediterranean_avenue'')]"] h o
  show ?thesis by (simp del: run_calls.simps)
qed

section \<open>When the trial loop looks at bankruptcy\<close>

text \<open>
  The claim that the predicates are checked after every single turn, so that no
  \<^verbatim>\<open>play()\<close> runs once a player is bankrupt, fails on the code. In the example game both
  players start with 50 and player 1 moves first: its turn leaves it with - 50, it has
  lost, and the loop still runs player 2's turn, in the state (- 50, 50).
\<close>

theorem C4_second_mover_plays_after_loss_counterexample:
  "play_calls ex_play ex_has_lost [P1, P2] (50, 50) = [(P1, (50, 50)), (P2, (- 50, 50))]
   \<and> ex_has_lost P1 (- 50, 50)"
  by (simp add: play_calls_def trial_loop.simps logged_play_def logged_has_lost_def)

text \<open>
  C4 (amended). During a trial both players' \<^verbatim>\<open>has_lost()\<close> predicates are checked
  before every round, a round being one turn of each player in the turn order: the
  trial runs k full rounds, with k at most 1000, neither player has lost at the start
  of any of these rounds, and if k is below 1000 then a player has lost in the state
  the loop stops in. The calls of \<^verbatim>\<open>play()\<close> made are exactly the calls of these k
  rounds, so no round is started once either player has lost at a round boundary.
\<close>

theorem C4_loss_checked_at_round_boundaries:
  "\<exists>k\<le>1000.
      trial_loop play has_lost list_players s0 0 = ((fold play list_players ^^ k) s0, k)
    \<and> (\<forall>j<k. \<not> has_lost P1 ((fold play list_players ^^ j) s0)
              \<and> \<not> has_lost P2 ((fold play list_players ^^ j) s0))
    \<and> (k < 1000 \<longrightarrow> has_lost P1 ((fold play list_players ^^ k) s0)
                      \<or> has_lost P2 ((fold play list_players ^^ k) s0))
    \<and> play_calls play has_lost list_players s0
        = concat (map (\<lambda>j. round_calls play list_players ((fold play list_players ^^ j) s0)) [0..<k])"
proof -
  let ?R = "fold play list_players"
  from trial_loop_rounds [of play has_lost list_players s0 0] obtain k where
    a: "trial_loop play has_lost list_players s0 0 = ((?R ^^ k) s0, 0 + k)"
    and b: "\<forall>j<k. \<not> has_lost P1 ((?R ^^ j) s0) \<and> \<not> has_lost P2 ((?R ^^ j) s0) \<and> 0 + j < 1000"
    and c: "has_lost P1 ((?R ^^ k) s0) \<or> has_lost P2 ((?R ^^ k) s0) \<or> 1000 \<le> 0 + k"
    by blast
  have k: "k \<le> 1000" by (rule trial_loop_cap [OF a b])
  have d: "play_calls play has_lost list_players s0
        = concat (map (\<lambda>j. round_calls play list_players ((?R ^^ j) s0)) [0..<k])"
    unfolding play_calls_def logged_loop [OF a b c, of "[]"] by simp
  from a b c k d show ?thesis by (intro exI [of _ k]) auto
qed

theorem C4_witness:
  "trial_loop ex_play ex_has_lost [P1, P2] (50, 50) 0 = ((- 50, - 50), 1)
   \<and> play_calls ex_play ex_has_lost [P1, P2] (50, 50) = round_calls ex_play [P1, P2] (50, 50)"
proof -
  let ?R = "fold ex_play [P1, P2]"
  from C4_loss_checked_at_round_boundaries [of ex_play ex_has_lost "[P1, P2]" "(50, 50)"]
  obtain k where
    a: "trial_loop ex_play ex_has_lost [P1, P2] (50, 50) 0 = ((?R ^^ k) (50, 50), k)"
    and b: "\<forall>j<k. \<not> ex_has_lost P1 ((?R ^^ j) (50, 50)) \<and> \<not> ex_has_lost P2 ((?R ^^ j) (50, 50))"
    and c: "k < 1000 \<longrightarrow> ex_has_lost P1 ((?R ^^ k) (50, 50)) \<or> ex_has_lost P2 ((?R ^^ k) (50, 50))"
    and d: "play_calls ex_play ex_has_lost [P1, P2] (50, 50)
        = concat (map (\<lambda>j. round_calls ex_play [P1, P2] ((?R ^^ j) (50, 50))) [0..<k])"
    by blast
  have k0: "k \<noteq> 0"
  proof
    assume "k = 0"
    with c show False by simp
  qed
  have k2: "k < 2"
  proof (rule ccontr)
    assume "\<not> k < 2"
    then have "1 < k" by simp
    with b have "\<not> ex_has_lost P1 ((?R ^^ 1) (50, 50))" by blast
    then show False by simp
  qed
  from k0 k2 have "k = 1" by simp
  with a d show ?thesis by simp
qed

section \<open>The outcome of a trial\<close>



section \<open>The arguments of the binomial test\<close>

text \<open>
  C8. The test is called two-sided with null probability 1/2, with k the number of rows
  labelled \<^verbatim>\<open>player1_lost\<close> and n that number plus the number of rows labelled
  \<^verbatim>\<open>player2_lost\<close>. Rows labelled \<^verbatim>\<open>nobody_lost\<close> count for neither: removing them
  from the results leaves the call unchanged, and n together with their number never
  exceeds the number of trials.
\<close>

theorem C8_binomtest_counts_decided_trials:
  "arg_k (binomtest_call list_results)
      = length (filter (\<lambda>r. lost_player r = ''player1_lost'') list_results)
   \<and> arg_n (binomtest_call list_results)
      = length (filter (\<lambda>r. lost_player r = ''player1_lost'') list_results)
        + length (filter (\<lambda>r. lost_player r = ''player2_lost'') list_results)
   \<and> arg_p (binomtest_call list_results) = 1 / 2
   \<and> arg_alternative (binomtest_call list_results) = ''two-sided''
   \<and> binomtest_call (filter (\<lambda>r. lost_player r \<noteq> ''nobody_lost'') list_results)
      = binomtest_call list_results
   \<and> arg_n (binomtest_call list_results)
        + length (filter (\<lambda>r. lost_player r = ''nobody_lost'') list_results)
      \<le> length list_results"
proof -
  have f1: "filter (\<lambda>r. lost_player r = ''player1_lost'')
              (filter (\<lambda>r. lost_player r \<noteq> ''nobody_lost'') list_results)
            = filter (\<lambda>r. lost_player r = ''player1_lost'') list_results"
    by (induction list_results) auto
  have f2: "filter (\<lambda>r. lost_player r = ''player2_lost'')
              (filter (\<lambda>r. lost_player r \<noteq> ''nobody_lost'') list_results)
            = filter (\<lambda>r. lost_player r = ''player2_lost'') list_results"
    by (induction list_results) auto
  have le: "length (filter (\<lambda>r. lost_player r = ''player1_lost'') list_results)
        + length (filter (\<lambda>r. lost_player r = ''player2_lost'') list_results)
        + length (filter (\<lambda>r. lost_player r = ''nobody_lost'') list_results)
      \<le> length list_results"
    by (induction list_results) auto
  from f1 f2 le show ?thesis
    by (simp add: binomtest_call_def n_lost_p1_def n_lost_p2_def)
qed

theorem C8_witness:
  "binomtest_call [(0, ''player1_lost'', ''player2''), (1, ''nobody_lost'', ''player1''),
                   (2, ''player2_lost'', ''player1''), (3, ''player1_lost'', ''player1'')]
     = \<lparr>arg_k = 2, arg_n = 3, arg_p = 1 / 2, arg_alternative = ''two-sided''\<rparr>"
proof -
  let ?rs = "[(0, ''player1_lost'', ''player2''), (1, ''nobody_lost'', ''player1''),
              (2, ''player2_lost'', ''player1''), (3::nat, ''player1_lost'', ''player1'')]"
  have "binomtest_call ?rs
      = \<lparr>arg_k = arg_k (binomtest_call ?rs), arg_n = arg_n (binomtest_call ?rs),
         arg_p = arg_p (binomtest_call ?rs), arg_alternative = arg_alternative (binomtest_call ?rs)\<rparr>"
    by simp
  with C8_binomtest_counts_decided_trials [of ?rs]
  show ?thesis by (simp add: lost_player_def)
qed

section \<open>Rounds are played in full\<close>

text \<open>
  C10. The players who make the calls of \<^verbatim>\<open>play()\<close> in a trial are the turn order
  repeated once per round: in every round each player of the turn order plays exactly
  once, in that order. Between the two turns of a round nothing is checked: when the
  loop condition holds at a round boundary, the loop goes on from the state after the
  first player's and then the second player's turn, whatever \<^verbatim>\<open>has_lost\<close> says in
  between.
\<close>

theorem C10_full_rounds_between_checks:
  "map fst (play_calls play has_lost list_players s0)
      = concat (replicate (snd (trial_loop play has_lost list_players s0 0)) list_players)
   \<and> (\<not> has_lost P1 s \<and> \<not> has_lost P2 s \<and> idx_count < 1000 \<longrightarrow>
        trial_loop play has_lost [first, second] s idx_count
          = trial_loop play has_lost [first, second] (play second (play first s)) (idx_count + 1))"
proof -
  let ?R = "fold play list_players"
  from trial_loop_rounds [of play has_lost list_players s0 0] obtain k where
    a: "trial_loop play has_lost list_players s0 0 = ((?R ^^ k) s0, 0 + k)"
    and b: "\<forall>j<k. \<not> has_lost P1 ((?R ^^ j) s0) \<and> \<not> has_lost P2 ((?R ^^ j) s0) \<and> 0 + j < 1000"
    and c: "has_lost P1 ((?R ^^ k) s0) \<or> has_lost P2 ((?R ^^ k) s0) \<or> 1000 \<le> 0 + k"
    by blast
  have "play_calls play has_lost list_players s0
        = concat (map (\<lambda>j. round_calls play list_players ((?R ^^ j) s0)) [0..<k])"
    unfolding play_calls_def logged_loop [OF a b c, of "[]"] by simp
  then have "map fst (play_calls play has_lost list_players s0)
        = concat (map (\<lambda>j. list_players) [0..<k])"
    by (simp add: map_concat comp_def map_fst_round_calls)
  also have "\<dots> = concat (replicate k list_players)"
    by (simp add: map_replicate_const)
  finally have one: "map fst (play_calls play has_lost list_players s0)
      = concat (replicate (snd (trial_loop play has_lost list_players s0 0)) list_players)"
    using a by simp
  have two: "\<not> has_lost P1 s \<and> \<not> has_lost P2 s \<and> idx_count < 1000 \<longrightarrow>
        trial_loop play has_lost [first, second] s idx_count
          = trial_loop play has_lost [first, second] (play second (play first s)) (idx_count + 1)"
    by (subst trial_loop.simps) simp
  from one two show ?thesis by blast
qed

theorem C10_witness:
  "map fst (play_calls ex_play ex_has_lost [P1, P2] (50, 50)) = [P1, P2]
   \<and> trial_loop ex_play ex_has_lost [P1, P2] (50, 50) 0
        = trial_loop ex_play ex_has_lost [P1, P2] (- 50, - 50) 1
   \<and> ex_has_lost P1 (ex_play P1 (50, 50))"
proof -
  have k: "snd (trial_loop ex_play ex_has_lost [P1, P2] (50, 50) 0) = 1"
    by (simp add: trial_loop.simps)
  have h: "\<not> ex_has_lost P1 (50, 50) \<and> \<not> ex_has_lost P2 (50, 50) \<and> (0::nat) < 1000"
    by simp
  from C10_full_rounds_between_checks [of ex_play ex_has_lost "[P1, P2]" "(50, 50)" "(50, 50)" 0 P1 P2] k h
  show ?thesis by simp
qed

section \<open>The three techniques\<close>



end
